theory Spec2Isabelle
  imports Complex_Main
begin

section \<open>JavaScript values read by the validator\<close>

text \<open>
  A JavaScript \<^verbatim>\<open>number\<close>: every finite double is a real, and the comparison of two
  finite doubles is the comparison of the reals they denote; the three special values are
  kept apart, since \<^verbatim>\<open>>=\<close> treats them specially.
\<close>

datatype number = NaN | NegInfinity | Finite real | PosInfinity

text \<open>\<^verbatim>\<open>x >= y\<close> on numbers: false as soon as one side is NaN.\<close>

fun number_ge :: "number \<Rightarrow> number \<Rightarrow> bool" where
  "number_ge NaN y = False"
| "number_ge x NaN = False"
| "number_ge PosInfinity y = True"
| "number_ge x NegInfinity = True"
| "number_ge (Finite a) (Finite b) = (b \<le> a)"
| "number_ge NegInfinity y = False"
| "number_ge x PosInfinity = False"

text \<open>
  \<^verbatim>\<open>x >= y\<close> on fields of type \<^verbatim>\<open>number | undefined\<close>: \<^verbatim>\<open>undefined\<close> converts to NaN,
  so the comparison is false when a side is absent.
\<close>

fun ge :: "number option \<Rightarrow> number option \<Rightarrow> bool" where
  "ge (Some a) (Some b) = number_ge a b"
| "ge x y = False"

subsection \<open>Strings\<close>

definition digit :: "nat \<Rightarrow> char" where
  "digit n = ''0123456789'' ! n"

text \<open>The decimal text of a non-negative integer, as \<^verbatim>\<open>String(n)\<close> and \<^verbatim>\<open>${n}\<close> give it.\<close>

fun decimal :: "nat \<Rightarrow> string" where
  "decimal n = (if n < 10 then [digit n] else decimal (n div 10) @ [digit (n mod 10)])"

declare decimal.simps [simp del]

text \<open>\<^verbatim>\<open>Array.prototype.join\<close> on an array of strings.\<close>

fun join :: "string \<Rightarrow> string list \<Rightarrow> string" where
  "join sep [] = []"
| "join sep [x] = x"
| "join sep (x # y # ys) = x @ sep @ join sep (y # ys)"

subsection \<open>The schema validator's result\<close>

text \<open>A segment of an issue's path: a field name or an array index.\<close>

datatype PropertyKey = Name string | Index nat

fun String :: "PropertyKey \<Rightarrow> string" where
  "String (Name s) = s"
| "String (Index n) = decimal n"

record ZodIssue =
  path :: "PropertyKey list"
  message :: string

text \<open>
  What \<^verbatim>\<open>safeParse\<close> returns: \<^verbatim>\<open>{success: true, data}\<close> or
  \<^verbatim>\<open>{success: false, error: {issues}}\<close>.
\<close>

datatype 'd SafeParseReturn = SafeParseSuccess 'd | SafeParseError "ZodIssue list"

subsection \<open>The validated record\<close>

text \<open>
  Only the fields the validator reads are named; the record schemes leave room for
  every other field of a profile and of a medication.
\<close>

record DosingProfile =
  minAge :: "number option"
  maxAge :: "number option"

record 'p QuickReferenceMedication =
  dosingProfiles :: "'p list option"
  complaintCategories :: "string list option"

type_synonym ('y, 'z) medication =
  "('y DosingProfile_scheme, 'z) QuickReferenceMedication_scheme"

section \<open>Exceptions and the store\<close>

text \<open>
  What can leave a function instead of a result: \<open>TypeError\<close> is thrown by a read or an
  array operation of the validator's own code, \<open>Thrown e\<close> is the exception \<open>e\<close> that
  came out of a call into the schema library.
\<close>

datatype 'e exn = TypeError | Thrown 'e

definition andThen :: "'e exn + 'a \<Rightarrow> ('a \<Rightarrow> 'e exn + 'b) \<Rightarrow> 'e exn + 'b" where
  "andThen m f = (case m of Inl e \<Rightarrow> Inl e | Inr x \<Rightarrow> f x)"

text \<open>
  A call that is not inside a \<^verbatim>\<open>try\<close> block: what the callee throws leaves the caller
  too.
\<close>

definition call :: "'e + 'a \<Rightarrow> 'e exn + 'a" where
  "call m = (case m of Inl e \<Rightarrow> Inl (Thrown e) | Inr x \<Rightarrow> Inr x)"

text \<open>
  \<^verbatim>\<open>o.f\<close> where \<^verbatim>\<open>o\<close> may be \<^verbatim>\<open>undefined\<close>: reading a property of \<^verbatim>\<open>undefined\<close>
  throws a TypeError.
\<close>

fun member :: "'a option \<Rightarrow> ('a \<Rightarrow> 'b) \<Rightarrow> 'e exn + 'b" where
  "member None f = Inl TypeError"
| "member (Some x) f = Inr (f x)"

text \<open>\<^verbatim>\<open>xs[i]\<close>: \<^verbatim>\<open>undefined\<close> outside the array.\<close>

definition element :: "'a list \<Rightarrow> nat \<Rightarrow> 'a option" where
  "element xs i = (if i < length xs then Some (xs ! i) else None)"

text \<open>
  The store: a reference is an index into the list of cells. A cell holds one of the
  caller's values (the argument of the validator among them, with all its fields) or an
  array of strings.
\<close>

datatype 'raw cell = Value 'raw | StringArray "string list"

type_synonym ref = nat
type_synonym 'raw heap = "'raw cell list"

text \<open>The array literal \<^verbatim>\<open>[]\<close>: a new, empty array at an unused reference.\<close>

definition new_array :: "'raw heap \<Rightarrow> ref \<times> 'raw heap" where
  "new_array h = (length h, h @ [StringArray []])"

text \<open>\<^verbatim>\<open>a.push(...items)\<close>: the array is updated in place.\<close>

definition push :: "ref \<Rightarrow> string list \<Rightarrow> 'raw heap \<Rightarrow> 'e exn + 'raw heap" where
  "push r items h =
     (case element h r of
        Some (StringArray xs) \<Rightarrow> Inr (h[r := StringArray (xs @ items)])
      | _ \<Rightarrow> Inl TypeError)"

text \<open>\<^verbatim>\<open>a.length\<close> of a string array.\<close>

definition array_length :: "ref \<Rightarrow> 'raw heap \<Rightarrow> 'e exn + nat" where
  "array_length r h =
     (case element h r of
        Some (StringArray xs) \<Rightarrow> Inr (length xs)
      | _ \<Rightarrow> Inl TypeError)"

record ValidationResult =
  isValid :: bool
  errors :: ref
  warnings :: ref

section \<open>validateMedication\<close>

text \<open>The text pushed for a schema issue (the arrow function mapped over the issues).\<close>

definition issue_text :: "'z ZodIssue_scheme \<Rightarrow> string" where
  "issue_text e = join ''.'' (map String (path e)) @ '': '' @ message e"

definition profile_text :: "nat \<Rightarrow> string" where
  "profile_text i =
     ''Dosing profile #'' @ decimal (i + 1) @ '': Minimum age must be less than maximum age''"

text \<open>
  The body of the \<^verbatim>\<open>for\<close> loop at index \<open>i\<close>: the profile is read, the four conjuncts
  of the condition are evaluated from left to right and stop at the first false one, and
  the message is pushed when all hold.
\<close>

definition check_profile ::
  "('y, 'z) medication \<Rightarrow> ref \<Rightarrow> nat \<Rightarrow> 'raw heap \<Rightarrow> 'e exn + 'raw heap"
where
  "check_profile validatedData errorsRef i h =
     andThen (member (dosingProfiles validatedData) (\<lambda>a. element a i)) (\<lambda>profile.
     andThen
       (if profile = None then Inr False
        else andThen (member profile minAge) (\<lambda>mn.
          if mn = None then Inr False
          else andThen (member profile maxAge) (\<lambda>mx.
            if mx = None then Inr False
            else andThen (member profile minAge) (\<lambda>a.
                 andThen (member profile maxAge) (\<lambda>b. Inr (ge a b))))))
       (\<lambda>offending.
          if offending then push errorsRef [profile_text i] h else Inr h))"

text \<open>
  The loop \<^verbatim>\<open>for (let i = 0; i < validatedData.dosingProfiles.length; i++)\<close>, from
  index \<open>i\<close> on; the length is read again before every round.
\<close>

function dosing_loop ::
  "('y, 'z) medication \<Rightarrow> ref \<Rightarrow> nat \<Rightarrow> 'raw heap \<Rightarrow> 'e exn + 'raw heap"
where
  "dosing_loop validatedData errorsRef i h =
     (case member (dosingProfiles validatedData) length of
        Inl e \<Rightarrow> Inl e
      | Inr n \<Rightarrow>
          if i < n then
            (case check_profile validatedData errorsRef i h of
               Inl e \<Rightarrow> Inl e
             | Inr h' \<Rightarrow> dosing_loop validatedData errorsRef (i + 1) h')
          else Inr h)"
  by pat_completeness auto
termination
  by (relation "measure (\<lambda>(d, r, i, h).
        (case dosingProfiles d of None \<Rightarrow> 0 | Some ps \<Rightarrow> length ps) - i)")
     (auto elim!: member.elims)

declare dosing_loop.simps [simp del]

text \<open>
  The validator. \<open>safeParse\<close> stands for \<^verbatim>\<open>QuickReferenceMedicationSchema.safeParse\<close>:
  the schema is imported from \<^verbatim>\<open>./schemas\<close>, so it is a parameter here. It reads the
  value found at the reference (\<open>None\<close> when the store has no cell there) and either
  returns one of the two shapes of \<open>SafeParseReturn\<close> (\<open>Inr\<close>) or throws (\<open>Inl\<close>), as
  it does when a getter of the value it reads throws. The call is not inside a
  \<^verbatim>\<open>try\<close> block, so what it throws leaves \<open>validateMedication\<close>, after the two arrays
  have been created. The result object holds the references of the two arrays built by
  the call.
\<close>

definition validateMedication ::
  "('raw cell option \<Rightarrow> 'e + ('y, 'z) medication SafeParseReturn) \<Rightarrow> ref \<Rightarrow> 'raw heap
     \<Rightarrow> 'e exn + (ValidationResult \<times> 'raw heap)"
where
  "validateMedication safeParse medication h0 =
     (let (errorsRef, h1) = new_array h0;
          (warningsRef, h2) = new_array h1
      in andThen (call (safeParse (element h2 medication))) (\<lambda>result.
         andThen
           (case result of
              SafeParseError issues \<Rightarrow> push errorsRef (map issue_text issues) h2
            | SafeParseSuccess validatedData \<Rightarrow>
                andThen
                  (if dosingProfiles validatedData \<noteq> None
                   then dosing_loop validatedData errorsRef 0 h2 else Inr h2)
                  (\<lambda>h3.
                andThen
                  (if complaintCategories validatedData = None then Inr True
                   else andThen (member (complaintCategories validatedData) length)
                          (\<lambda>n. Inr (n = 0)))
                  (\<lambda>none.
                     if none then push warningsRef [''No complaint categories assigned''] h3
                     else Inr h3)))
           (\<lambda>h4.
              andThen (array_length errorsRef h4) (\<lambda>n.
                Inr (\<lparr>isValid = (n = 0), errors = errorsRef, warnings = warningsRef\<rparr>, h4)))))"

text \<open>The strings of the array a reference names, if it names one.\<close>

definition strings :: "'raw heap \<Rightarrow> ref \<Rightarrow> string list option" where
  "strings h r = (case element h r of Some (StringArray xs) \<Rightarrow> Some xs | _ \<Rightarrow> None)"

section \<open>What the claims speak of\<close>

text \<open>The dosing profiles of a validated record; none when the field is absent.\<close>

definition profile_list :: "('y, 'z) medication \<Rightarrow> 'y DosingProfile_scheme list" where
  "profile_list d = (case dosingProfiles d of None \<Rightarrow> [] | Some ps \<Rightarrow> ps)"

text \<open>A profile has both ages present with \<^verbatim>\<open>minAge >= maxAge\<close>.\<close>

definition age_range_inverted :: "'y DosingProfile_scheme \<Rightarrow> bool" where
  "age_range_inverted p =
     (case (minAge p, maxAge p) of (Some a, Some b) \<Rightarrow> number_ge a b | _ \<Rightarrow> False)"

text \<open>The complaint categories are absent or an empty sequence.\<close>

definition unassigned :: "('y, 'z) medication \<Rightarrow> bool" where
  "unassigned d = (complaintCategories d = None \<or> complaintCategories d = Some [])"

text \<open>
  The contents of the two arrays after a call, as functions of what \<open>safeParse\<close>
  returned; \<open>validateMedication_eq\<close> below proves that the call computes them.
\<close>

definition error_texts :: "('y, 'z) medication SafeParseReturn \<Rightarrow> string list" where
  "error_texts result =
     (case result of
        SafeParseError issues \<Rightarrow> map issue_text issues
      | SafeParseSuccess d \<Rightarrow>
          map profile_text
            (filter (\<lambda>k. age_range_inverted (profile_list d ! k)) [0..<length (profile_list d)]))"

definition warning_texts :: "('y, 'z) medication SafeParseReturn \<Rightarrow> string list" where
  "warning_texts result =
     (case result of
        SafeParseError issues \<Rightarrow> []
      | SafeParseSuccess d \<Rightarrow>
          if unassigned d then [''No complaint categories assigned''] else [])"

section \<open>Decimal numbers\<close>

lemma decimal_digit: "n < 10 \<Longrightarrow> decimal n = [digit n]"
  by (subst decimal.simps) simp

lemma digit_inj: "a < 10 \<Longrightarrow> b < 10 \<Longrightarrow> digit a = digit b \<Longrightarrow> a = b"
proof -
  assume a: "a < 10" and b: "b < 10" and eq: "digit a = digit b"
  have d: "distinct ''0123456789''" by simp
  have "length ''0123456789'' = 10" by simp
  with a b d eq show "a = b"
    unfolding digit_def by (metis nth_eq_iff_index_eq)
qed

lemma decimal_not_Nil: "decimal n \<noteq> []"
  by (subst decimal.simps) simp

lemma decimal_last: "last (decimal n) = digit (n mod 10)"
  by (subst decimal.simps) simp

lemma decimal_butlast: "butlast (decimal n) = (if n < 10 then [] else decimal (n div 10))"
  by (subst decimal.simps) simp

text \<open>Two positions never print alike.\<close>

lemma decimal_inj: "decimal n = decimal m \<Longrightarrow> n = m"
proof (induction n arbitrary: m rule: less_induct)
  case (less n)
  from less.prems have "digit (n mod 10) = digit (m mod 10)"
    by (metis decimal_last)
  then have md: "n mod 10 = m mod 10" by (auto intro: digit_inj)
  from less.prems have b: "butlast (decimal n) = butlast (decimal m)" by simp
  show ?case
  proof (cases "n < 10")
    case True
    with b have "m < 10"
      by (auto simp: decimal_butlast decimal_not_Nil split: if_splits dest: sym)
    with True md show ?thesis by simp
  next
    case False
    with b have "\<not> m < 10"
      by (auto simp: decimal_butlast decimal_not_Nil split: if_splits)
    with False b have "decimal (n div 10) = decimal (m div 10)"
      by (simp add: decimal_butlast)
    moreover have "n div 10 < n" using False by simp
    ultimately have "n div 10 = m div 10" by (rule less.IH [rotated])
    with md show ?thesis by (metis div_mult_mod_eq)
  qed
qed

lemma profile_text_inj:
  "inj (\<lambda>i. ''Dosing profile #'' @ decimal i @ '': Minimum age must be less than maximum age'')"
  by (rule injI) (auto dest: decimal_inj)

section \<open>The store\<close>

lemma push_eq:
  "element h r = Some (StringArray xs) \<Longrightarrow> push r items h = Inr (h[r := StringArray (xs @ items)])"
  by (simp add: push_def)

lemma array_length_eq:
  "element h r = Some (StringArray xs) \<Longrightarrow> array_length r h = Inr (length xs)"
  by (simp add: array_length_def)

lemma element_fresh:
  "element (h @ [a, b]) (length h) = Some a"
  "element (h @ [a, b]) (Suc (length h)) = Some b"
  by (simp_all add: element_def nth_append)

lemma update_fresh:
  "(h @ [a, b])[length h := c] = h @ [c, b]"
  "(h @ [a, b])[Suc (length h) := c] = h @ [a, c]"
  by (simp_all add: list_update_append)

lemma element_append: "element h m = Some v \<Longrightarrow> element (h @ xs) m = Some v"
  by (auto simp: element_def nth_append split: if_splits)

lemma strings_fresh:
  "strings (h @ [StringArray a, StringArray b]) (length h) = Some a"
  "strings (h @ [StringArray a, StringArray b]) (Suc (length h)) = Some b"
  by (simp_all add: strings_def element_fresh)

lemma strings_append: "strings h r = Some xs \<Longrightarrow> strings (h @ ys) r = Some xs"
  by (auto simp: strings_def element_def nth_append split: if_splits option.splits cell.splits)

section \<open>The loop over the dosing profiles\<close>

text \<open>One round never throws: it pushes the message of an inverted profile, and nothing else.\<close>

lemma check_profile_eq:
  assumes "dosingProfiles d = Some ps" "i < length ps" "element h e = Some (StringArray xs)"
  shows "check_profile d e i h =
           Inr (if age_range_inverted (ps ! i)
                then h[e := StringArray (xs @ [profile_text i])] else h)"
  using assms
  by (cases "minAge (ps ! i)"; cases "maxAge (ps ! i)")
     (simp_all add: check_profile_def andThen_def element_def push_def age_range_inverted_def)

text \<open>
  The loop from index \<open>i\<close> on appends, in order, the message of every inverted profile
  at an index from \<open>i\<close> up; by induction on the number of rounds left.
\<close>

lemma dosing_loop_eq:
  assumes "dosingProfiles d = Some ps" "element h e = Some (StringArray xs)"
  shows "(dosing_loop d e i h :: 'e exn + 'raw heap) =
           Inr (h[e := StringArray (xs @ map profile_text
                  (filter (\<lambda>k. age_range_inverted (ps ! k)) [i..<length ps]))])"
  using assms
proof (induction "length ps - i" arbitrary: i h xs)
  case 0
  then have "\<not> i < length ps" by simp
  with 0 show ?case
    by (simp add: dosing_loop.simps [of d e i h] element_def split: if_splits)
       (metis list_update_id)
next
  case (Suc n)
  then have lt: "i < length ps" by simp
  have e: "e < length h" using Suc.prems(2) by (simp add: element_def split: if_splits)
  show ?case
  proof (cases "age_range_inverted (ps ! i)")
    case True
    let ?h = "h[e := StringArray (xs @ [profile_text i])]"
    have "element ?h e = Some (StringArray (xs @ [profile_text i]))"
      using e by (simp add: element_def)
    from Suc.hyps(1) [OF _ Suc.prems(1) this] Suc.hyps(2)
    have "(dosing_loop d e (i + 1) ?h :: 'e exn + 'raw heap) =
            Inr (?h[e := StringArray ((xs @ [profile_text i]) @ map profile_text
                  (filter (\<lambda>k. age_range_inverted (ps ! k)) [i + 1..<length ps]))])"
      by simp
    with True lt show ?thesis
      by (simp add: dosing_loop.simps [of d e i h]
            check_profile_eq [OF Suc.prems(1) lt Suc.prems(2)] Suc.prems(1) upt_conv_Cons)
  next
    case False
    from Suc.hyps(1) [OF _ Suc.prems(1) Suc.prems(2), of "i + 1"] Suc.hyps(2)
    have "(dosing_loop d e (i + 1) h :: 'e exn + 'raw heap) =
            Inr (h[e := StringArray (xs @ map profile_text
                  (filter (\<lambda>k. age_range_inverted (ps ! k)) [i + 1..<length ps]))])"
      by simp
    with False lt show ?thesis
      by (simp add: dosing_loop.simps [of d e i h]
            check_profile_eq [OF Suc.prems(1) lt Suc.prems(2)] Suc.prems(1) upt_conv_Cons)
  qed
qed

text \<open>The indices from 0 and the positions from 1 give the same messages.\<close>

lemma one_based:
  "map profile_text (filter (\<lambda>k. P (ps ! k)) [0..<n]) =
   map (\<lambda>i. ''Dosing profile #'' @ decimal i @ '': Minimum age must be less than maximum age'')
     (filter (\<lambda>i. P (ps ! (i - 1))) [1..<Suc n])"
proof -
  have "[1..<Suc n] = map Suc [0..<n]" by (simp add: map_Suc_upt)
  then show ?thesis
    by (simp add: filter_map comp_def profile_text_def del: upt_Suc)
qed

section \<open>What a call does\<close>

text \<open>What the schema call throws leaves the validator.\<close>

lemma validateMedication_throws:
  assumes "safeParse (element (h @ [StringArray [], StringArray []]) medication) = Inl e"
  shows "validateMedication safeParse medication h = Inl (Thrown e)"
  by (simp add: validateMedication_def new_array_def call_def andThen_def assms)

text \<open>
  When the schema call returns, the validator returns, leaves every cell of the store as
  it was, and adds two cells: the array of errors and the array of warnings.
\<close>

lemma validateMedication_eq:
  assumes result_def:
    "safeParse (element (h @ [StringArray [], StringArray []]) medication) = Inr result"
  shows "validateMedication safeParse medication h =
      Inr (\<lparr>isValid = (error_texts result = []), errors = length h,
             warnings = Suc (length h)\<rparr>,
           h @ [StringArray (error_texts result), StringArray (warning_texts result)])"
proof -
  let ?h2 = "h @ [StringArray [], StringArray []]"
  let ?branch = "case result of
        SafeParseError issues \<Rightarrow> push (length h) (map issue_text issues) ?h2
      | SafeParseSuccess validatedData \<Rightarrow>
          andThen
            (if dosingProfiles validatedData \<noteq> None
             then dosing_loop validatedData (length h) 0 ?h2 else Inr ?h2)
            (\<lambda>h3.
          andThen
            (if complaintCategories validatedData = None then Inr True
             else andThen (member (complaintCategories validatedData) length)
                    (\<lambda>n. Inr (n = 0)))
            (\<lambda>none.
               if none then push (Suc (length h)) [''No complaint categories assigned''] h3
               else Inr h3))"
  have unfold: "validateMedication safeParse medication h =
      andThen ?branch (\<lambda>h4. andThen (array_length (length h) h4) (\<lambda>n.
        Inr (\<lparr>isValid = (n = 0), errors = length h, warnings = Suc (length h)\<rparr>, h4)))"
    by (simp add: validateMedication_def new_array_def result_def call_def
          andThen_def [of "Inr result"] cong: SafeParseReturn.case_cong if_cong)
  have branch:
    "?branch = Inr (h @ [StringArray (error_texts result), StringArray (warning_texts result)])"
  proof (cases result)
    case (SafeParseError issues)
    then show ?thesis
      by (simp add: push_eq [OF element_fresh(1)] update_fresh error_texts_def warning_texts_def)
  next
    case (SafeParseSuccess d)
    have loop: "(if dosingProfiles d \<noteq> None then dosing_loop d (length h) 0 ?h2 else Inr ?h2)
                 = Inr (h @ [StringArray (error_texts (SafeParseSuccess d)), StringArray []])"
    proof (cases "dosingProfiles d")
      case None
      then show ?thesis by (simp add: error_texts_def profile_list_def)
    next
      case (Some ps)
      show ?thesis
        using dosing_loop_eq [OF Some element_fresh(1) [of h "StringArray []" "StringArray []"], of 0]
        by (simp add: Some error_texts_def profile_list_def update_fresh)
    qed
    have cats: "(if complaintCategories d = None then Inr True
                 else andThen (member (complaintCategories d) length) (\<lambda>n. Inr (n = 0)))
                = Inr (unassigned d)"
      by (cases "complaintCategories d") (simp_all add: andThen_def unassigned_def)
    show ?thesis
      unfolding SafeParseSuccess SafeParseReturn.case loop cats
      by (simp add: andThen_def push_eq [OF element_fresh(2)] update_fresh warning_texts_def)
  qed
  show ?thesis
    unfolding unfold branch
    by (simp add: andThen_def array_length_eq [OF element_fresh(1)])
qed

lemma validateMedication_at:
  assumes "element h medication = Some v" and "safeParse (Some v) = Inr result"
  shows "validateMedication safeParse medication h =
      Inr (\<lparr>isValid = (error_texts result = []), errors = length h,
             warnings = Suc (length h)\<rparr>,
           h @ [StringArray (error_texts result), StringArray (warning_texts result)])"
  by (rule validateMedication_eq) (simp add: element_append [OF assms(1)] assms(2))

lemma validateMedication_throws_at:
  assumes "element h medication = Some v" and "safeParse (Some v) = Inl e"
  shows "validateMedication safeParse medication h = Inl (Thrown e)"
  by (rule validateMedication_throws) (simp add: element_append [OF assms(1)] assms(2))

section \<open>The claims\<close>

text \<open>
  In each statement the argument \<open>medication\<close> refers to a value \<open>v\<close> of the store \<open>h\<close>,
  \<open>safeParse (Some v)\<close> is what the schema call does for it (\<open>Inr\<close> a result, \<open>Inl\<close> an
  exception), and the lists of the returned result are read from the store the call
  leaves behind.
\<close>

text \<open>
  Claim C1. For a record that passes schema validation, the errors are exactly the
  messages \<open>Dosing profile #i: Minimum age must be less than maximum age\<close> of the
  1-based positions \<open>i\<close> whose profile has both ages present with \<open>minAge >= maxAge\<close>:
  one entry for each such position, in ascending order of position, and nothing else.
  The check goes on after an offending profile: a later valid profile adds no entry, a
  later offending one is reported.
\<close>

theorem dosing_profile_errors:
  assumes "element h medication = Some v"
    and "safeParse (Some v) = Inr (SafeParseSuccess d)"
  shows "\<exists>r h' es. validateMedication safeParse medication h = Inr (r, h') \<and>
           strings h' (errors r) = Some es \<and>
           es = map (\<lambda>i. ''Dosing profile #'' @ decimal i @
                        '': Minimum age must be less than maximum age'')
                  (filter (\<lambda>i. age_range_inverted (profile_list d ! (i - 1)))
                     [1..<Suc (length (profile_list d))]) \<and>
           distinct es"
proof -
  let ?t = "\<lambda>i. ''Dosing profile #'' @ decimal i @ '': Minimum age must be less than maximum age''"
  let ?es = "map ?t (filter (\<lambda>i. age_range_inverted (profile_list d ! (i - 1)))
                      [1..<Suc (length (profile_list d))])"
  have "error_texts (SafeParseSuccess d) = ?es"
    unfolding error_texts_def SafeParseReturn.case by (rule one_based)
  moreover have "distinct ?es"
    unfolding distinct_map
    by (intro conjI distinct_filter distinct_upt inj_on_subset [OF profile_text_inj]) simp
  ultimately show ?thesis
    by (simp add: validateMedication_at [of _ _ _ safeParse, OF assms] strings_fresh)
qed

text \<open>
  Three profiles, ages 10 to 5, 1 to 2 and 7 to 7: the first and the third are reported,
  the second is not.
\<close>

theorem dosing_profile_errors_witness:
  "element [Value ()] 0 = Some (Value ()) \<and>
   (\<exists>r h'. validateMedication ((\<lambda>x. Inr (SafeParseSuccess \<lparr>dosingProfiles = Some [\<lparr>minAge = Some (Finite 10), maxAge = Some (Finite 5)\<rparr>,
                                 \<lparr>minAge = Some (Finite 1), maxAge = Some (Finite 2)\<rparr>,
                                 \<lparr>minAge = Some (Finite 7), maxAge = Some (Finite 7)\<rparr>], complaintCategories = Some [''pain'']\<rparr>)) :: unit cell option \<Rightarrow> string + (unit, unit) medication SafeParseReturn) 0 [Value ()] = Inr (r, h') \<and>
     strings h' (errors r) =
       Some [''Dosing profile #1: Minimum age must be less than maximum age'',
             ''Dosing profile #3: Minimum age must be less than maximum age''])"
  using dosing_profile_errors [of "[Value ()]" 0 "Value ()" "(\<lambda>x. Inr (SafeParseSuccess \<lparr>dosingProfiles = Some [\<lparr>minAge = Some (Finite 10), maxAge = Some (Finite 5)\<rparr>,
                                 \<lparr>minAge = Some (Finite 1), maxAge = Some (Finite 2)\<rparr>,
                                 \<lparr>minAge = Some (Finite 7), maxAge = Some (Finite 7)\<rparr>], complaintCategories = Some [''pain'']\<rparr>)) :: unit cell option \<Rightarrow> string + (unit, unit) medication SafeParseReturn"
      "\<lparr>dosingProfiles = Some [\<lparr>minAge = Some (Finite 10), maxAge = Some (Finite 5)\<rparr>,
                                 \<lparr>minAge = Some (Finite 1), maxAge = Some (Finite 2)\<rparr>,
                                 \<lparr>minAge = Some (Finite 7), maxAge = Some (Finite 7)\<rparr>], complaintCategories = Some [''pain'']\<rparr>"]
  by (simp add: element_def profile_list_def age_range_inverted_def decimal_digit digit_def)

text \<open>
  Claim C2, as amended. For a record that fails schema validation, the errors have one
  entry for each issue the schema validator reported, each entry is the issue's path
  segments joined by \<open>.\<close> (an index printed as its decimal number in place), then
  \<open>: \<close>, then the issue's message, and no business rule runs: the errors hold nothing
  else. \<open>isValid\<close> is computed from the number of errors, not from
  \<^verbatim>\<open>result.success\<close>: it is false exactly when the validator reported at least one
  issue.
\<close>

theorem schema_failure_errors:
  assumes "element h medication = Some v"
    and "safeParse (Some v) = Inr (SafeParseError issues)"
  shows "\<exists>r h' es. validateMedication safeParse medication h = Inr (r, h') \<and>
           isValid r = (issues = []) \<and>
           strings h' (errors r) = Some es \<and>
           length es = length issues \<and>
           es = map (\<lambda>e. join ''.'' (map String (path e)) @ '': '' @ message e) issues"
  by (simp add: validateMedication_at [of _ _ _ safeParse, OF assms] strings_fresh error_texts_def issue_text_def)

theorem schema_failure_errors_witness:
  "element [Value ()] 0 = Some (Value ()) \<and>
   (\<exists>r h'. validateMedication
      ((\<lambda>x. Inr (SafeParseError [\<lparr>path = [Name ''dosingProfiles'', Index 12, Name ''minAge''],
           message = ''Expected number, received string''\<rparr>,
          \<lparr>path = [], message = ''Required''\<rparr>])) :: unit cell option \<Rightarrow> string + (unit, unit) medication SafeParseReturn) 0 [Value ()] = Inr (r, h') \<and>
     isValid r = False \<and>
     strings h' (errors r) =
       Some [''dosingProfiles.12.minAge: Expected number, received string'', '': Required''])"
  using schema_failure_errors [of "[Value ()]" 0 "Value ()"
      "(\<lambda>x. Inr (SafeParseError [\<lparr>path = [Name ''dosingProfiles'', Index 12, Name ''minAge''],
           message = ''Expected number, received string''\<rparr>,
          \<lparr>path = [], message = ''Required''\<rparr>])) :: unit cell option \<Rightarrow> string + (unit, unit) medication SafeParseReturn"
      "[\<lparr>path = [Name ''dosingProfiles'', Index 12, Name ''minAge''],
           message = ''Expected number, received string''\<rparr>,
          \<lparr>path = [], message = ''Required''\<rparr>]"]
  by (simp add: element_def decimal.simps [of 12] decimal_digit digit_def)

text \<open>
  The claim as first worded has \<open>isValid\<close> false for every failing record. A failure
  result whose issue list is empty leaves the errors empty, and the call returns
  \<open>isValid\<close> true.
\<close>

theorem schema_failure_isValid_counterexample:
  "validateMedication ((\<lambda>x. Inr (SafeParseError [])) :: unit cell option \<Rightarrow> string + (unit, unit) medication SafeParseReturn) 0 [Value ()] =
     Inr (\<lparr>isValid = True, errors = 1, warnings = 2\<rparr>,
          [Value (), StringArray [], StringArray []])"
  by (simp add: validateMedication_at [of _ _ "Value ()" _ "SafeParseError []"]
        element_def error_texts_def warning_texts_def)

text \<open>
  Claim C3. For every input, \<open>isValid\<close> of the returned result is true if and only if
  its errors list is empty; the warnings have no part in it. There is a returned result
  unless the schema call threw.
\<close>

theorem isValid_iff_no_errors:
  "(\<exists>e. safeParse (element (h @ [StringArray [], StringArray []]) medication) = Inl e \<and>
        validateMedication safeParse medication h = Inl (Thrown e)) \<or>
   (\<exists>r h' es. validateMedication safeParse medication h = Inr (r, h') \<and>
     strings h' (errors r) = Some es \<and> isValid r = (es = []))"
proof (cases "safeParse (element (h @ [StringArray [], StringArray []]) medication)")
  case (Inl e)
  then show ?thesis by (simp add: validateMedication_throws)
next
  case (Inr result)
  then show ?thesis by (simp add: validateMedication_eq strings_fresh)
qed

text \<open>A record with a warning and no error is valid.\<close>

theorem isValid_iff_no_errors_witness:
  "\<exists>r h'. validateMedication ((\<lambda>x. Inr (SafeParseSuccess \<lparr>dosingProfiles = Some [\<lparr>minAge = Some (Finite 10), maxAge = Some (Finite 50)\<rparr>], complaintCategories = None\<rparr>)) :: unit cell option \<Rightarrow> string + (unit, unit) medication SafeParseReturn) 0 [Value ()] = Inr (r, h') \<and>
     strings h' (errors r) = Some [] \<and> isValid r = True \<and>
     strings h' (warnings r) = Some [''No complaint categories assigned'']"
proof -
  have run: "validateMedication ((\<lambda>x. Inr (SafeParseSuccess \<lparr>dosingProfiles = Some [\<lparr>minAge = Some (Finite 10), maxAge = Some (Finite 50)\<rparr>], complaintCategories = None\<rparr>)) :: unit cell option \<Rightarrow> string + (unit, unit) medication SafeParseReturn) 0 [Value ()] =
      Inr (\<lparr>isValid = True, errors = 1, warnings = 2\<rparr>,
           [Value (), StringArray [], StringArray [''No complaint categories assigned'']])"
    by (simp add: validateMedication_at [of _ _ "Value ()" _ "SafeParseSuccess (\<lparr>dosingProfiles = Some [\<lparr>minAge = Some (Finite 10), maxAge = Some (Finite 50)\<rparr>], complaintCategories = None\<rparr>)"]
          element_def error_texts_def warning_texts_def unassigned_def profile_list_def
          age_range_inverted_def)
  from isValid_iff_no_errors [of "(\<lambda>x. Inr (SafeParseSuccess \<lparr>dosingProfiles = Some [\<lparr>minAge = Some (Finite 10), maxAge = Some (Finite 50)\<rparr>], complaintCategories = None\<rparr>)) :: unit cell option \<Rightarrow> string + (unit, unit) medication SafeParseReturn" "[Value ()]" 0] run
  obtain r h' es where "validateMedication ((\<lambda>x. Inr (SafeParseSuccess \<lparr>dosingProfiles = Some [\<lparr>minAge = Some (Finite 10), maxAge = Some (Finite 50)\<rparr>], complaintCategories = None\<rparr>)) :: unit cell option \<Rightarrow> string + (unit, unit) medication SafeParseReturn) 0 [Value ()] = Inr (r, h')"
    and "strings h' (errors r) = Some es" and "isValid r = (es = [])"
    by auto
  with run show ?thesis
    by (auto simp: strings_def element_def)
qed

text \<open>
  Claim C4, as amended. The validator throws nothing of its own: whenever the schema call
  returns a result, for a record that passes or that fails, the validator returns a
  result whose two lists are there to be read, and what the schema validator found wrong
  is delivered as the entries of the errors list. The loop terminates by its definition.
  Only an exception thrown inside the schema call leaves the validator: nothing catches
  it.
\<close>

theorem validateMedication_returns:
  assumes "element h medication = Some v"
  shows "validateMedication safeParse medication h \<noteq> Inl TypeError \<and>
     (\<forall>e. safeParse (Some v) = Inl e \<longrightarrow>
        validateMedication safeParse medication h = Inl (Thrown e)) \<and>
     (\<forall>result. safeParse (Some v) = Inr result \<longrightarrow>
        (\<exists>r h' es ws. validateMedication safeParse medication h = Inr (r, h') \<and>
           strings h' (errors r) = Some es \<and> strings h' (warnings r) = Some ws \<and>
           (\<forall>issues. result = SafeParseError issues \<longrightarrow>
              es = map issue_text issues \<and> ws = [])))"
proof (cases "safeParse (Some v)")
  case (Inl e)
  then show ?thesis by (simp add: validateMedication_throws_at [OF assms])
next
  case (Inr result)
  then show ?thesis
    by (simp add: validateMedication_at [of _ _ _ safeParse, OF assms] strings_fresh error_texts_def
          warning_texts_def)
qed

theorem validateMedication_returns_witness:
  "element [Value ()] 0 = Some (Value ()) \<and>
   validateMedication ((\<lambda>x. Inr (SafeParseError [\<lparr>path = [Name ''dosingProfiles'', Index 12, Name ''minAge''],
           message = ''Expected number, received string''\<rparr>,
          \<lparr>path = [], message = ''Required''\<rparr>])) :: unit cell option \<Rightarrow> string + (unit, unit) medication SafeParseReturn) 0 [Value ()] \<noteq> Inl TypeError \<and>
   (\<exists>r h'. validateMedication ((\<lambda>x. Inr (SafeParseError [\<lparr>path = [Name ''dosingProfiles'', Index 12, Name ''minAge''],
           message = ''Expected number, received string''\<rparr>,
          \<lparr>path = [], message = ''Required''\<rparr>])) :: unit cell option \<Rightarrow> string + (unit, unit) medication SafeParseReturn) 0 [Value ()] = Inr (r, h') \<and>
     strings h' (errors r) =
       Some [''dosingProfiles.12.minAge: Expected number, received string'', '': Required''] \<and>
     strings h' (warnings r) = Some [])"
  using validateMedication_returns [of "[Value ()]" 0 "Value ()"
      "(\<lambda>x. Inr (SafeParseError [\<lparr>path = [Name ''dosingProfiles'', Index 12, Name ''minAge''],
           message = ''Expected number, received string''\<rparr>,
          \<lparr>path = [], message = ''Required''\<rparr>])) :: unit cell option \<Rightarrow> string + (unit, unit) medication SafeParseReturn"]
  by (simp add: element_def issue_text_def decimal.simps [of 12] decimal_digit digit_def)

text \<open>
  The claim as first worded has the validator never throw, whatever the input. When the
  schema call throws, as it does with \<open>RangeError\<close> on a value whose getter throws it,
  the exception leaves the validator and no result is returned.
\<close>

theorem validateMedication_throws_counterexample:
  "validateMedication ((\<lambda>x. Inl ''RangeError'') :: unit cell option \<Rightarrow> string + (unit, unit) medication SafeParseReturn) 0 [Value ()] = Inl (Thrown ''RangeError'')"
  by (simp add: validateMedication_throws_at [of _ _ "Value ()"] element_def)

text \<open>
  Claim C5. For a record that passes schema validation and whose complaint categories are
  absent or an empty sequence, the warnings are exactly the one entry
  \<open>No complaint categories assigned\<close>, and the warning leaves \<open>isValid\<close> alone: it is
  true exactly when there are no errors.
\<close>

theorem unassigned_categories_warning:
  assumes "element h medication = Some v"
    and "safeParse (Some v) = Inr (SafeParseSuccess d)"
    and "complaintCategories d = None \<or> complaintCategories d = Some []"
  shows "\<exists>r h' es. validateMedication safeParse medication h = Inr (r, h') \<and>
           strings h' (warnings r) = Some [''No complaint categories assigned''] \<and>
           strings h' (errors r) = Some es \<and> isValid r = (es = [])"
  using assms(3)
  by (simp add: validateMedication_at [of _ _ _ safeParse, OF assms(1,2)] strings_fresh warning_texts_def
        unassigned_def)

theorem unassigned_categories_warning_witness:
  "element [Value ()] 0 = Some (Value ()) \<and>
   (\<exists>r h'. validateMedication ((\<lambda>x. Inr (SafeParseSuccess \<lparr>dosingProfiles = None :: DosingProfile list option, complaintCategories = Some []\<rparr>)) :: unit cell option \<Rightarrow> string + (unit, unit) medication SafeParseReturn) 0 [Value ()] = Inr (r, h') \<and>
     strings h' (warnings r) = Some [''No complaint categories assigned''] \<and>
     strings h' (errors r) = Some [] \<and> isValid r = True)"
proof -
  have at: "element [Value ()] 0 = Some (Value ())"
    by (simp add: element_def)
  have run: "validateMedication ((\<lambda>x. Inr (SafeParseSuccess \<lparr>dosingProfiles = None :: DosingProfile list option, complaintCategories = Some []\<rparr>)) :: unit cell option \<Rightarrow> string + (unit, unit) medication SafeParseReturn) 0 [Value ()] =
      Inr (\<lparr>isValid = True, errors = 1, warnings = 2\<rparr>,
           [Value (), StringArray [], StringArray [''No complaint categories assigned'']])"
    by (simp add: validateMedication_at [OF at, of _ "SafeParseSuccess (\<lparr>dosingProfiles = None :: DosingProfile list option, complaintCategories = Some []\<rparr>)"]
          error_texts_def warning_texts_def unassigned_def profile_list_def)
  from unassigned_categories_warning [OF at, of "(\<lambda>x. Inr (SafeParseSuccess \<lparr>dosingProfiles = None :: DosingProfile list option, complaintCategories = Some []\<rparr>)) :: unit cell option \<Rightarrow> string + (unit, unit) medication SafeParseReturn"
      "\<lparr>dosingProfiles = None :: DosingProfile list option, complaintCategories = Some []\<rparr>"]
  obtain r h' es where "validateMedication ((\<lambda>x. Inr (SafeParseSuccess \<lparr>dosingProfiles = None :: DosingProfile list option, complaintCategories = Some []\<rparr>)) :: unit cell option \<Rightarrow> string + (unit, unit) medication SafeParseReturn) 0 [Value ()] = Inr (r, h')"
    and "strings h' (warnings r) = Some [''No complaint categories assigned'']"
    and "strings h' (errors r) = Some es" and "isValid r = (es = [])"
    by auto
  with run have "\<exists>r h'. validateMedication ((\<lambda>x. Inr (SafeParseSuccess \<lparr>dosingProfiles = None :: DosingProfile list option, complaintCategories = Some []\<rparr>)) :: unit cell option \<Rightarrow> string + (unit, unit) medication SafeParseReturn) 0 [Value ()] = Inr (r, h') \<and>
     strings h' (warnings r) = Some [''No complaint categories assigned''] \<and>
     strings h' (errors r) = Some [] \<and> isValid r = True"
    by (auto simp: strings_def element_def)
  with at show ?thesis by (rule conjI)
qed

text \<open>
  Claim C6. For a record that passes schema validation, has no dosing profiles (the field
  absent or empty) and has at least one complaint category, \<open>isValid\<close> is true and
  both lists are empty.
\<close>

theorem clean_record_valid:
  assumes "element h medication = Some v"
    and "safeParse (Some v) = Inr (SafeParseSuccess d)"
    and "dosingProfiles d = None \<or> dosingProfiles d = Some []"
    and "complaintCategories d = Some (c # cs)"
  shows "\<exists>r h'. validateMedication safeParse medication h = Inr (r, h') \<and>
           isValid r = True \<and> strings h' (errors r) = Some [] \<and>
           strings h' (warnings r) = Some []"
  using assms(3,4)
  by (auto simp add: validateMedication_at [of _ _ _ safeParse, OF assms(1,2)] strings_fresh
        warning_texts_def error_texts_def profile_list_def unassigned_def)

theorem clean_record_valid_witness:
  "element [Value ()] 0 = Some (Value ()) \<and>
   (\<exists>r h'. validateMedication ((\<lambda>x. Inr (SafeParseSuccess \<lparr>dosingProfiles = Some ([] :: DosingProfile list), complaintCategories = Some [''pain'']\<rparr>)) :: unit cell option \<Rightarrow> string + (unit, unit) medication SafeParseReturn) 0 [Value ()] = Inr (r, h') \<and>
     isValid r = True \<and> strings h' (errors r) = Some [] \<and> strings h' (warnings r) = Some [])"
  using clean_record_valid [of "[Value ()]" 0 "Value ()" "(\<lambda>x. Inr (SafeParseSuccess \<lparr>dosingProfiles = Some ([] :: DosingProfile list), complaintCategories = Some [''pain'']\<rparr>)) :: unit cell option \<Rightarrow> string + (unit, unit) medication SafeParseReturn"
      "\<lparr>dosingProfiles = Some ([] :: DosingProfile list), complaintCategories = Some [''pain'']\<rparr>" "''pain''" "[]"]
  by (simp add: element_def)

text \<open>
  Claim C7. The validator is deterministic: a second call on the same input, made in the
  store the first call left, returns a result with the same \<open>isValid\<close> and the same
  errors and warnings, element for element and in the same order, and the lists of the
  first result are still what they were. There are results to compare unless the schema
  call threw; then the second call throws the same.
\<close>

theorem validateMedication_repeatable:
  assumes "element h medication = Some v"
  shows "(\<exists>e. safeParse (Some v) = Inl e \<and>
            validateMedication safeParse medication h = Inl (Thrown e) \<and>
            validateMedication safeParse medication (h @ [StringArray [], StringArray []]) = Inl (Thrown e)) \<or>
         (\<exists>r1 h1 r2 h2 es ws.
           validateMedication safeParse medication h = Inr (r1, h1) \<and>
           validateMedication safeParse medication h1 = Inr (r2, h2) \<and>
           isValid r2 = isValid r1 \<and>
           strings h1 (errors r1) = Some es \<and> strings h2 (errors r2) = Some es \<and>
           strings h1 (warnings r1) = Some ws \<and> strings h2 (warnings r2) = Some ws \<and>
           strings h2 (errors r1) = Some es \<and> strings h2 (warnings r1) = Some ws)"
proof (cases "safeParse (Some v)")
  case (Inl e)
  then show ?thesis
    by (simp add: validateMedication_throws_at [OF assms]
          validateMedication_throws_at [OF element_append [OF assms]])
next
  case (Inr result)
  let ?es = "error_texts result" and ?ws = "warning_texts result"
  let ?h1 = "h @ [StringArray ?es, StringArray ?ws]"
  have 1: "validateMedication safeParse medication h =
      Inr (\<lparr>isValid = (?es = []), errors = length h, warnings = Suc (length h)\<rparr>, ?h1)"
    by (rule validateMedication_at [of _ _ _ safeParse, OF assms Inr])
  have 2: "validateMedication safeParse medication ?h1 =
      Inr (\<lparr>isValid = (?es = []), errors = length ?h1, warnings = Suc (length ?h1)\<rparr>,
           ?h1 @ [StringArray ?es, StringArray ?ws])"
    by (rule validateMedication_at [of _ _ _ safeParse, OF element_append [OF assms] Inr])
  have old: "strings (?h1 @ [StringArray ?es, StringArray ?ws]) (length h) = Some ?es"
    "strings (?h1 @ [StringArray ?es, StringArray ?ws]) (Suc (length h)) = Some ?ws"
    by (rule strings_append, rule strings_fresh)+
  show ?thesis
    by (intro disjI2 exI conjI, rule 1, rule 2)
       (simp_all only: ValidationResult.simps strings_fresh old)
qed

theorem validateMedication_repeatable_witness:
  "element [Value ()] 0 = Some (Value ()) \<and>
   (\<exists>r1 h1 r2 h2 es ws.
      validateMedication ((\<lambda>x. Inr (SafeParseSuccess \<lparr>dosingProfiles = Some [\<lparr>minAge = Some (Finite 10), maxAge = Some (Finite 5)\<rparr>], complaintCategories = None\<rparr>)) :: unit cell option \<Rightarrow> string + (unit, unit) medication SafeParseReturn) 0 [Value ()] = Inr (r1, h1) \<and>
      validateMedication ((\<lambda>x. Inr (SafeParseSuccess \<lparr>dosingProfiles = Some [\<lparr>minAge = Some (Finite 10), maxAge = Some (Finite 5)\<rparr>], complaintCategories = None\<rparr>)) :: unit cell option \<Rightarrow> string + (unit, unit) medication SafeParseReturn) 0 h1 = Inr (r2, h2) \<and>
      isValid r2 = isValid r1 \<and>
      strings h1 (errors r1) = Some es \<and> strings h2 (errors r2) = Some es \<and>
      strings h1 (warnings r1) = Some ws \<and> strings h2 (warnings r2) = Some ws \<and>
      strings h2 (errors r1) = Some es \<and> strings h2 (warnings r1) = Some ws)"
  using validateMedication_repeatable [of "[Value ()]" 0 "Value ()" "(\<lambda>x. Inr (SafeParseSuccess \<lparr>dosingProfiles = Some [\<lparr>minAge = Some (Finite 10), maxAge = Some (Finite 5)\<rparr>], complaintCategories = None\<rparr>)) :: unit cell option \<Rightarrow> string + (unit, unit) medication SafeParseReturn"]
  by (simp add: element_def)

text \<open>
  Claim C8. The validator has no side effect: after the call every cell the store had
  before is as it was, so the argument still refers to the same value with all its
  fields; and the outcome depends on that value and on the schema only: in another store
  that holds the same value, at whatever reference, the call returns the same
  \<open>isValid\<close>, errors and warnings. When the schema call throws, the call throws the
  same in both stores.
\<close>

theorem validateMedication_frame:
  assumes "element h medication = Some v"
    and "element g n = Some v"
  shows "(\<exists>e. safeParse (Some v) = Inl e \<and>
            validateMedication safeParse medication h = Inl (Thrown e) \<and>
            validateMedication safeParse n g = Inl (Thrown e)) \<or>
         (\<exists>r h' s g'.
           validateMedication safeParse medication h = Inr (r, h') \<and>
           validateMedication safeParse n g = Inr (s, g') \<and>
           take (length h) h' = h \<and> element h' medication = Some v \<and>
           isValid s = isValid r \<and>
           strings g' (errors s) = strings h' (errors r) \<and>
           strings g' (warnings s) = strings h' (warnings r))"
proof (cases "safeParse (Some v)")
  case (Inl e)
  then show ?thesis
    by (simp add: validateMedication_throws_at [OF assms(1)]
          validateMedication_throws_at [OF assms(2)])
next
  case (Inr result)
  then show ?thesis
    by (simp add: validateMedication_at [OF assms(1)] validateMedication_at [OF assms(2)]
          strings_fresh element_append [OF assms(1)])
qed

theorem validateMedication_frame_witness:
  "element [Value ()] 0 = Some (Value ()) \<and>
   element [StringArray [''kept''], Value ()] 1 = Some (Value ()) \<and>
   (\<exists>r h' s g'.
      validateMedication ((\<lambda>x. Inr (SafeParseSuccess \<lparr>dosingProfiles = Some [\<lparr>minAge = Some (Finite 10), maxAge = Some (Finite 5)\<rparr>], complaintCategories = None\<rparr>)) :: unit cell option \<Rightarrow> string + (unit, unit) medication SafeParseReturn) 0 [Value ()] = Inr (r, h') \<and>
      validateMedication ((\<lambda>x. Inr (SafeParseSuccess \<lparr>dosingProfiles = Some [\<lparr>minAge = Some (Finite 10), maxAge = Some (Finite 5)\<rparr>], complaintCategories = None\<rparr>)) :: unit cell option \<Rightarrow> string + (unit, unit) medication SafeParseReturn) 1 [StringArray [''kept''], Value ()] = Inr (s, g') \<and>
      take (length [Value ()]) h' = [Value ()] \<and> element h' 0 = Some (Value ()) \<and>
      isValid s = isValid r \<and>
      strings g' (errors s) = strings h' (errors r) \<and>
      strings g' (warnings s) = strings h' (warnings r))"
  using validateMedication_frame [of "[Value ()]" 0 "Value ()"
      "[StringArray [''kept''], Value ()]" 1 "(\<lambda>x. Inr (SafeParseSuccess \<lparr>dosingProfiles = Some [\<lparr>minAge = Some (Finite 10), maxAge = Some (Finite 5)\<rparr>], complaintCategories = None\<rparr>)) :: unit cell option \<Rightarrow> string + (unit, unit) medication SafeParseReturn"]
  by (simp add: element_def)

text \<open>
  Claim C9. For a record that fails schema validation the warnings are empty: the check
  of the complaint categories runs in the success branch only, so no failing record gets
  the warning \<open>No complaint categories assigned\<close>, whatever its complaint categories.
\<close>

theorem schema_failure_no_warnings:
  assumes "element h medication = Some v"
    and "safeParse (Some v) = Inr (SafeParseError issues)"
  shows "\<exists>r h'. validateMedication safeParse medication h = Inr (r, h') \<and>
           strings h' (warnings r) = Some []"
  by (simp add: validateMedication_at [of _ _ _ safeParse, OF assms] strings_fresh warning_texts_def)

theorem schema_failure_no_warnings_witness:
  "element [Value ()] 0 = Some (Value ()) \<and>
   (\<exists>r h'. validateMedication ((\<lambda>x. Inr (SafeParseError [\<lparr>path = [Name ''dosingProfiles'', Index 12, Name ''minAge''],
           message = ''Expected number, received string''\<rparr>,
          \<lparr>path = [], message = ''Required''\<rparr>])) :: unit cell option \<Rightarrow> string + (unit, unit) medication SafeParseReturn) 0 [Value ()] = Inr (r, h') \<and>
     strings h' (warnings r) = Some [])"
  using schema_failure_no_warnings [of "[Value ()]" 0 "Value ()" "(\<lambda>x. Inr (SafeParseError [\<lparr>path = [Name ''dosingProfiles'', Index 12, Name ''minAge''],
           message = ''Expected number, received string''\<rparr>,
          \<lparr>path = [], message = ''Required''\<rparr>])) :: unit cell option \<Rightarrow> string + (unit, unit) medication SafeParseReturn"
      "[\<lparr>path = [Name ''dosingProfiles'', Index 12, Name ''minAge''],
           message = ''Expected number, received string''\<rparr>,
          \<lparr>path = [], message = ''Required''\<rparr>]"]
  by (simp add: element_def)

text \<open>
  Claim C10. For every input the warnings have at most one entry, and an entry is the text
  \<open>No complaint categories assigned\<close>: the validator produces no other warning. There
  is a returned result unless the schema call threw.
\<close>

theorem warnings_at_most_one:
  "(\<exists>e. safeParse (element (h @ [StringArray [], StringArray []]) medication) = Inl e \<and>
        validateMedication safeParse medication h = Inl (Thrown e)) \<or>
   (\<exists>r h' ws. validateMedication safeParse medication h = Inr (r, h') \<and>
     strings h' (warnings r) = Some ws \<and> length ws \<le> 1 \<and>
     (ws = [] \<or> ws = [''No complaint categories assigned'']))"
proof (cases "safeParse (element (h @ [StringArray [], StringArray []]) medication)")
  case (Inl e)
  then show ?thesis by (simp add: validateMedication_throws)
next
  case (Inr result)
  then show ?thesis
    by (simp add: validateMedication_eq strings_fresh warning_texts_def
          split: SafeParseReturn.split)
qed

theorem warnings_at_most_one_witness:
  "\<exists>r h' ws. validateMedication ((\<lambda>x. Inr (SafeParseSuccess \<lparr>dosingProfiles = Some [\<lparr>minAge = Some (Finite 10), maxAge = Some (Finite 5)\<rparr>], complaintCategories = None\<rparr>)) :: unit cell option \<Rightarrow> string + (unit, unit) medication SafeParseReturn) 0 [Value ()] = Inr (r, h') \<and>
     strings h' (warnings r) = Some ws \<and> length ws \<le> 1 \<and>
     (ws = [] \<or> ws = [''No complaint categories assigned''])"
  using warnings_at_most_one [of "(\<lambda>x. Inr (SafeParseSuccess \<lparr>dosingProfiles = Some [\<lparr>minAge = Some (Finite 10), maxAge = Some (Finite 5)\<rparr>], complaintCategories = None\<rparr>)) :: unit cell option \<Rightarrow> string + (unit, unit) medication SafeParseReturn" "[Value ()]" 0]
  by (simp add: element_def)

end
